theory Spec2Isabelle
  imports Complex_Main
begin

section \<open>Data model\<close>

text \<open>
  The coupon site keeps its records in a remote store with two collections and keeps two
  cookies in the browser. Timestamps are epoch milliseconds (the value of
  \<^verbatim>\<open>Date.getTime()\<close>); an ISO string written by \<^verbatim>\<open>toISOString()\<close> is
  identified with the time value it denotes.

  \<^verbatim>\<open>interface Coupon { id; code; status: string; claimed_by: string | null;
  claimed_at: string | null; expires_at; created_at }\<close>. The field \<^verbatim>\<open>id\<close> is
  called \<open>ident\<close> here, since \<open>id\<close> is the identity function of HOL.
\<close>

record coupon =
  ident :: string
  code :: string
  status :: string
  claimed_by :: "string option"
  claimed_at :: "int option"
  expires_at :: int
  created_at :: int

text \<open>A row of the \<^verbatim>\<open>claims\<close> collection, as \<^verbatim>\<open>claimCoupon\<close> inserts it.\<close>

record claim =
  claim_ident :: string
  coupon_id :: string
  ip_address :: string
  session_id :: string
  claim_created_at :: int

record db =
  coupons :: "coupon list"
  claims :: "claim list"

text \<open>
  The two cookies \<^verbatim>\<open>coupon_session_id\<close> and \<^verbatim>\<open>last_claim_time\<close>.
  \<^verbatim>\<open>setLastClaimTime\<close> writes the decimal digits of \<^verbatim>\<open>now.getTime()\<close> and
  \<^verbatim>\<open>parseInt\<close> reads them back, so the second cookie is kept as the integer it
  denotes; \<open>None\<close> is the cookie that is not there. The attributes (path, max-age,
  SameSite, Secure) do not enter any decision of the code and are left out.
\<close>

record cookies =
  coupon_session_id :: "string option"
  last_claim_time :: "int option"

text \<open>The \<^verbatim>\<open>useState\<close> cells of \<^verbatim>\<open>HomePage\<close>.\<close>

record home =
  loading :: bool
  claimedCoupon :: "string option"
  sessionId :: string
  canClaim :: bool
  timeUntilNextClaim :: string

datatype toast = Success string | Error string

text \<open>
  Everything a page can read or change: its own \<^verbatim>\<open>useState\<close> cells, the
  cookies of the browser, the remote store and the notifications shown so far.
\<close>

record 'u world =
  ui :: 'u
  jar :: cookies
  store :: db
  toasts :: "toast list"

section \<open>Rate limiter\<close>

text \<open>
  A \<^verbatim>\<open>Date\<close> is its time value, an integer number of milliseconds of magnitude at
  most 8640000000000000; \<^verbatim>\<open>new Date(t)\<close> for any other \<open>t\<close> is the invalid date,
  here \<open>None\<close>, whose \<^verbatim>\<open>getTime()\<close> is \<^verbatim>\<open>NaN\<close>.
\<close>

definition TimeClip :: "int \<Rightarrow> int option" where
  "TimeClip t = (if \<bar>t\<bar> > 8640000000000000 then None else Some t)"

definition valid_time :: "int \<Rightarrow> bool" where
  "valid_time t = (\<bar>t\<bar> \<le> 8640000000000000)"

text \<open>
  \<^verbatim>\<open>canUserClaim\<close>: the clock reading \<^verbatim>\<open>new Date()\<close> is the argument
  \<open>now\<close>. The quotient is a JavaScript number; both operands are integers below
  \<open>2^53\<close> in magnitude and the comparison with 1 is decided far from any rounding,
  so the quotient is taken in the reals. With an invalid date the quotient is
  \<^verbatim>\<open>NaN\<close> and the comparison is false.
\<close>

definition canUserClaim :: "cookies \<Rightarrow> int \<Rightarrow> bool" where
  "canUserClaim c now =
     (case last_claim_time c of
        None \<Rightarrow> True
      | Some lastClaimTime \<Rightarrow>
          (case TimeClip lastClaimTime of
             None \<Rightarrow> False
           | Some lastClaim \<Rightarrow>
               (let hoursSinceLastClaim = real_of_int (now - lastClaim) / (1000 * 60 * 60)
                in hoursSinceLastClaim \<ge> 1)))"

text \<open>The decimal rendering of an integer inside a template literal.\<close>

definition digit_char :: "nat \<Rightarrow> char" where
  "digit_char n = ''0123456789'' ! n"

fun nat_to_string :: "nat \<Rightarrow> string" where
  "nat_to_string n =
     (if n < 10 then [digit_char n]
      else nat_to_string (n div 10) @ [digit_char (n mod 10)])"

declare nat_to_string.simps [simp del]

definition number_to_string :: "int \<Rightarrow> string" where
  "number_to_string i =
     (if i < 0 then ''-'' @ nat_to_string (nat (- i)) else nat_to_string (nat i))"

text \<open>
  Line 111 computes in double precision. The difference of two integers is exact up to
  \<open>2^53\<close> in magnitude; from there to \<open>2^54\<close>, which no two time values exceed, it
  is the nearest even integer, a tie going to the multiple of 4.
\<close>

definition double_difference :: "int \<Rightarrow> int \<Rightarrow> int" where
  "double_difference a b =
     (let d = a - b
      in if 9007199254740992 < \<bar>d\<bar> \<and> \<bar>d\<bar> < 18014398509481984
         then (if even d then d else if (d + 1) mod 4 = 0 then d + 1 else d - 1)
         else d)"

definition round_half_even :: "real \<Rightarrow> int" where
  "round_half_even y =
     (let f = \<lfloor>y\<rfloor>; r = y - real_of_int f
      in if r < 1 / 2 then f else if r > 1 / 2 then f + 1
         else if even f then f else f + 1)"

text \<open>
  \<^verbatim>\<open>Math.ceil(x / (1000 * 60))\<close> for a double \<open>x\<close> that is an integer. Up to
  \<open>2^53\<close> the quotient is below \<open>2^38\<close> and is rounded by at most \<open>2^-16\<close>, while a
  quotient that is not an integer is at least 1/60000 away from one: the rounding does
  not change the ceiling. Beyond, the quotient is rounded to 53 significant bits, the
  nearest multiple of \<open>2^-15\<close> below \<open>2^38\<close> and of \<open>2^-14\<close> from there on, ties to
  the even multiple.
\<close>

definition ceil_minutes :: "int \<Rightarrow> int" where
  "ceil_minutes x =
     (let q = real_of_int x / (1000 * 60)
      in if \<bar>x\<bar> \<le> 9007199254740992 then \<lceil>q\<rceil>
         else if \<bar>q\<bar> < 274877906944
         then \<lceil>real_of_int (round_half_even (q * 32768)) / 32768\<rceil>
         else \<lceil>real_of_int (round_half_even (q * 16384)) / 16384\<rceil>)"

text \<open>
  Lines 109 to 111 of \<^verbatim>\<open>updateClaimStatus\<close>: the minutes left for a last claim at
  \<open>lastClaimTime\<close> when the clock reads \<open>now\<close>; \<open>None\<close> is \<^verbatim>\<open>NaN\<close>.
\<close>

definition minutesLeft :: "int \<Rightarrow> int \<Rightarrow> int option" where
  "minutesLeft lastClaimTime now =
     (case TimeClip (lastClaimTime + (60 * 60 * 1000)) of
        None \<Rightarrow> None
      | Some nextClaimTime \<Rightarrow> Some (ceil_minutes (double_difference nextClaimTime now)))"

text \<open>
  Lines 113 to 117: the text shown. With \<^verbatim>\<open>NaN\<close> minutes the test of line 114 is
  false and the test of line 116 is true: the text is \<^verbatim>\<open>NaN minutes\<close>.
\<close>

definition waitMessage :: "int \<Rightarrow> int \<Rightarrow> string" where
  "waitMessage lastClaimTime now =
     (case minutesLeft lastClaimTime now of
        None \<Rightarrow> ''NaN minutes''
      | Some m \<Rightarrow>
          if m > 60 then ''1 hour''
          else number_to_string m @ '' minute'' @ (if m \<noteq> 1 then ''s'' else ''''))"

text \<open>
  \<^verbatim>\<open>updateClaimStatus\<close> reads the clock twice: \<open>now1\<close> inside
  \<^verbatim>\<open>canUserClaim\<close> and \<open>now2\<close> on line 110. A missing cookie is read as
  \<^verbatim>\<open>'0'\<close>.
\<close>

definition updateClaimStatus :: "int \<Rightarrow> int \<Rightarrow> cookies \<Rightarrow> home \<Rightarrow> home" where
  "updateClaimStatus now1 now2 c h =
     (let can = canUserClaim c now1;
          h1 = h\<lparr>canClaim := can\<rparr>
      in if \<not> can
         then (let lastClaimTime = (case last_claim_time c of None \<Rightarrow> 0 | Some t \<Rightarrow> t)
               in h1\<lparr>timeUntilNextClaim := waitMessage lastClaimTime now2\<rparr>)
         else h1)"

text \<open>
  What the specification asks of the wait message, in its own words: the remaining
  minutes to the one-hour boundary rounded up, shown as "1 hour" above 60 and as
  "n minute(s)" otherwise.
\<close>

definition spec_remaining_minutes :: "int \<Rightarrow> int \<Rightarrow> int" where
  "spec_remaining_minutes T N =
     (let remaining_ms = T + 3600000 - N
      in if remaining_ms mod 60000 = 0 then remaining_ms div 60000
         else remaining_ms div 60000 + 1)"

definition spec_wait_message :: "int \<Rightarrow> int \<Rightarrow> string" where
  "spec_wait_message T N =
     (let n = spec_remaining_minutes T N
      in if n > 60 then ''1 hour''
         else if n = 1 then ''1 minute''
         else number_to_string n @ '' minutes'')"

section \<open>Cookies of the claim page\<close>

text \<open>
  \<^verbatim>\<open>getOrCreateSessionId\<close>: an existing non-empty cookie value is returned, otherwise
  the fresh \<^verbatim>\<open>crypto.randomUUID()\<close>, here the argument \<open>fresh\<close>, is stored and
  returned.
\<close>

definition getOrCreateSessionId :: "string \<Rightarrow> cookies \<Rightarrow> string \<times> cookies" where
  "getOrCreateSessionId fresh c =
     (case coupon_session_id c of
        Some existingSessionId \<Rightarrow>
          if existingSessionId \<noteq> '''' then (existingSessionId, c)
          else (fresh, c\<lparr>coupon_session_id := Some fresh\<rparr>)
      | None \<Rightarrow> (fresh, c\<lparr>coupon_session_id := Some fresh\<rparr>))"

definition setLastClaimTime :: "int \<Rightarrow> cookies \<Rightarrow> cookies" where
  "setLastClaimTime now c = c\<lparr>last_claim_time := Some now\<rparr>"

section \<open>Remote data client\<close>

text \<open>
  The remote client is a collaborator outside the repository. A call of it either
  resolves with data, resolves with its \<^verbatim>\<open>error\<close> field set, or rejects (the
  exception that the \<^verbatim>\<open>try\<close> blocks catch). Which of the three happens is not
  decided by the page, so it is an input of each workflow. A call that does not resolve
  with data leaves the store as it was.
\<close>

datatype outcome = Resolves | Errors | Rejects

text \<open>
  Modelled from the spec: the filtered select of section 4.2, "exactly one record with
  status=available (arbitrary selection among ties)", for
  \<^verbatim>\<open>.select('*').eq('status', 'available').limit(1).single()\<close>. The arbitrary
  order of the store is the order of the list; no row is the error of
  \<^verbatim>\<open>single()\<close>.
\<close>

definition select_available :: "db \<Rightarrow> coupon option" where
  "select_available d = find (\<lambda>x. status x = ''available'') (coupons d)"

text \<open>\<^verbatim>\<open>.update(f).eq(...)\<close>: every row that passes the filters is rewritten.\<close>

definition update_coupons :: "(coupon \<Rightarrow> bool) \<Rightarrow> (coupon \<Rightarrow> coupon) \<Rightarrow> db \<Rightarrow> db" where
  "update_coupons p f d = d\<lparr>coupons := map (\<lambda>x. if p x then f x else x) (coupons d)\<rparr>"

definition insert_claim :: "claim \<Rightarrow> db \<Rightarrow> db" where
  "insert_claim r d = d\<lparr>claims := claims d @ [r]\<rparr>"

text \<open>
  Modelled from the spec: the column defaults of the \<^verbatim>\<open>coupons\<close> table, whose
  declaration is not among the sources. \<^verbatim>\<open>addCoupon\<close> sends only
  \<^verbatim>\<open>code\<close> and \<^verbatim>\<open>expires_at\<close>; section 3 has a coupon "created by admin action
  with status=available" and an available coupon with both claim fields null. The
  identifier and \<^verbatim>\<open>created_at\<close> are chosen by the store.
\<close>

definition insert_coupon :: "string \<Rightarrow> int \<Rightarrow> string \<Rightarrow> int \<Rightarrow> db \<Rightarrow> db" where
  "insert_coupon new_id store_now cd ex d =
     d\<lparr>coupons := coupons d @
        [\<lparr>ident = new_id, code = cd, status = ''available'', claimed_by = None,
          claimed_at = None, expires_at = ex, created_at = store_now\<rparr>]\<rparr>"

section \<open>Claim workflow\<close>

text \<open>
  What one run of \<^verbatim>\<open>claimCoupon\<close> takes from outside: the fresh UUID, the five
  clock readings in the order of the source (line 49 called from line 132, line 161,
  line 57, and lines 49 and 110 called from line 199), the \<^verbatim>\<open>client_ip\<close> found in
  the answer of \<^verbatim>\<open>getSession\<close>, the outcome of each remote call, and the
  identifier and creation time the store gives the new claim row.
\<close>

record claim_env =
  uuid :: string
  now_check :: int
  now_update :: int
  now_cookie :: int
  now_status1 :: int
  now_status2 :: int
  client_ip :: "string option"
  getSession_call :: outcome
  select_call :: outcome
  update_call :: outcome
  insert_call :: outcome
  revert_call :: outcome
  new_claim_ident :: string
  new_claim_created_at :: int

definition add_toast :: "toast \<Rightarrow> 'u world \<Rightarrow> 'u world" where
  "add_toast t w = w\<lparr>toasts := toasts w @ [t]\<rparr>"

definition failed_to_claim :: toast where
  "failed_to_claim = Error ''Failed to claim coupon. Please try again later.''"

definition no_coupons :: toast where
  "no_coupons = Error ''No coupons available at the moment. Please try again later.''"

text \<open>\<^verbatim>\<open>client_ip || '0.0.0.0'\<close>: an absent or empty address becomes the sentinel.\<close>

definition ip_or_sentinel :: "string option \<Rightarrow> string" where
  "ip_or_sentinel ip =
     (case ip of None \<Rightarrow> ''0.0.0.0'' | Some a \<Rightarrow> if a = '''' then ''0.0.0.0'' else a)"

text \<open>The update of lines 156 to 164 and the compensating update of lines 184 to 191.\<close>

definition mark_claimed :: "string \<Rightarrow> int \<Rightarrow> coupon \<Rightarrow> db \<Rightarrow> db" where
  "mark_claimed sid now cp d =
     update_coupons (\<lambda>x. ident x = ident cp \<and> status x = ''available'')
       (\<lambda>x. x\<lparr>status := ''claimed'', claimed_by := Some sid, claimed_at := Some now\<rparr>) d"

definition revert_claimed :: "coupon \<Rightarrow> db \<Rightarrow> db" where
  "revert_claimed cp d =
     update_coupons (\<lambda>x. ident x = ident cp)
       (\<lambda>x. x\<lparr>status := ''available'', claimed_by := None, claimed_at := None\<rparr>) d"

text \<open>Lines 197 to 200, after both remote writes went through.\<close>

definition claim_succeeded :: "claim_env \<Rightarrow> coupon \<Rightarrow> home world \<Rightarrow> home world" where
  "claim_succeeded e cp w =
     (let w1 = w\<lparr>jar := setLastClaimTime (now_cookie e) (jar w)\<rparr>;
          w2 = w1\<lparr>ui := (ui w1)\<lparr>claimedCoupon := Some (code cp)\<rparr>\<rparr>;
          w3 = w2\<lparr>ui := updateClaimStatus (now_status1 e) (now_status2 e) (jar w2) (ui w2)\<rparr>
      in add_toast (Success ''Coupon claimed successfully!'') w3)"

text \<open>
  Lines 172 to 200, entered with the coupon already marked as claimed: the insertion of
  the claim row and what follows it. The answer of the compensating update is not
  destructured, so its error is ignored. The argument \<open>sid\<close> is the
  \<^verbatim>\<open>sessionId\<close> that the closure captured when the page was rendered.
\<close>

definition claim_record :: "claim_env \<Rightarrow> string \<Rightarrow> coupon \<Rightarrow> home world \<Rightarrow> home world" where
  "claim_record e sid cp w1 =
     (case insert_call e of
        Rejects \<Rightarrow> add_toast failed_to_claim w1
      | Errors \<Rightarrow>
          (case revert_call e of
             Rejects \<Rightarrow> add_toast failed_to_claim w1
           | Errors \<Rightarrow> add_toast failed_to_claim w1
           | Resolves \<Rightarrow>
               add_toast failed_to_claim (w1\<lparr>store := revert_claimed cp (store w1)\<rparr>))
      | Resolves \<Rightarrow>
          claim_succeeded e cp
            (w1\<lparr>store := insert_claim
                 \<lparr>claim_ident = new_claim_ident e, coupon_id = ident cp,
                  ip_address = ip_or_sentinel (client_ip e), session_id = sid,
                  claim_created_at = new_claim_created_at e\<rparr>
                 (store w1)\<rparr>))"

text \<open>
  The body of the \<^verbatim>\<open>try\<close> block with its \<^verbatim>\<open>catch\<close>, lines 138 to 203. A
  rejected call jumps to the \<^verbatim>\<open>catch\<close>, which shows the same notification as
  the two error branches; the console output is left out.
\<close>

definition claim_try :: "claim_env \<Rightarrow> string \<Rightarrow> home world \<Rightarrow> home world" where
  "claim_try e sid w =
     (case getSession_call e of
        Rejects \<Rightarrow> add_toast failed_to_claim w
      | _ \<Rightarrow>
        (case select_call e of
           Rejects \<Rightarrow> add_toast failed_to_claim w
         | Errors \<Rightarrow> add_toast no_coupons w
         | Resolves \<Rightarrow>
           (case select_available (store w) of
              None \<Rightarrow> add_toast no_coupons w
            | Some cp \<Rightarrow>
              (case update_call e of
                 Rejects \<Rightarrow> add_toast failed_to_claim w
               | Errors \<Rightarrow> add_toast failed_to_claim w
               | Resolves \<Rightarrow>
                   claim_record e sid cp
                     (w\<lparr>store := mark_claimed sid (now_update e) cp (store w)\<rparr>)))))"

text \<open>
  \<^verbatim>\<open>claimCoupon\<close>, lines 121 to 207. \<^verbatim>\<open>setSessionId(sid)\<close> changes the state
  cell for the next render only; the run in progress keeps the \<^verbatim>\<open>sessionId\<close> it
  captured. The \<^verbatim>\<open>finally\<close> clause clears the loading flag on every path through
  the \<^verbatim>\<open>try\<close> block.
\<close>

definition claimCoupon :: "claim_env \<Rightarrow> home world \<Rightarrow> home world" where
  "claimCoupon e w =
     (let captured = sessionId (ui w);
          (sid, jar1) = (if captured = '''' then getOrCreateSessionId (uuid e) (jar w)
                         else (captured, jar w))
      in if captured = '''' \<and> sid = ''''
         then add_toast (Error ''Session not initialized'') (w\<lparr>jar := jar1\<rparr>)
         else
           (let w1 = (if captured = ''''
                      then w\<lparr>jar := jar1, ui := (ui w)\<lparr>sessionId := sid\<rparr>\<rparr> else w)
            in if \<not> canUserClaim (jar w1) (now_check e)
               then add_toast
                      (Error (''Please wait '' @ timeUntilNextClaim (ui w)
                              @ '' before claiming another coupon'')) w1
               else
                 (let w2 = w1\<lparr>ui := (ui w1)\<lparr>loading := True\<rparr>\<rparr>;
                      w3 = claim_try e captured w2
                  in w3\<lparr>ui := (ui w3)\<lparr>loading := False\<rparr>\<rparr>)))"

section \<open>Admin dashboard\<close>

text \<open>
  The state cell \<^verbatim>\<open>expiryDays\<close> holds \<^verbatim>\<open>parseInt(e.target.value)\<close>, which is
  an integer or, for an input without digits, \<^verbatim>\<open>NaN\<close>. The cell \<^verbatim>\<open>coupons\<close>
  holds the rows last fetched. The cells for the claims view, the menu and the spinner
  take no part in the operations below.
\<close>

datatype jsnum = Num int | NaN

record admin =
  listed :: "coupon list"
  expiryDays :: jsnum

definition initial_admin :: admin where
  "initial_admin = \<lparr>listed = [], expiryDays = Num 7\<rparr>"

text \<open>
  \<^verbatim>\<open>loadCoupons\<close>: all rows by creation time, newest first. An error is thrown
  into the \<^verbatim>\<open>catch\<close> of the function itself.
\<close>

definition loadCoupons :: "outcome \<Rightarrow> admin world \<Rightarrow> admin world" where
  "loadCoupons call w =
     (case call of
        Resolves \<Rightarrow> w\<lparr>ui := (ui w)\<lparr>listed := rev (sort_key created_at (coupons (store w)))\<rparr>\<rparr>
      | _ \<Rightarrow> add_toast (Error ''Failed to load coupons'') w)"

subsection \<open>The coupon code\<close>

text \<open>
  \<^verbatim>\<open>Math.random().toString(36)\<close>: a draw from the interval from 0 to 1, 1 excluded,
  written in base 36, is \<^verbatim>\<open>0\<close> for the draw 0 and otherwise \<^verbatim>\<open>0.\<close> followed by
  the digits of the fraction, of which there is at least one. The draw is given by
  those digits, each below 36.
\<close>

definition digit36 :: "nat \<Rightarrow> char" where
  "digit36 d = ''0123456789abcdefghijklmnopqrstuvwxyz'' ! d"

definition toString36 :: "nat list \<Rightarrow> string" where
  "toString36 ds = (if ds = [] then ''0'' else ''0.'' @ map digit36 ds)"

text \<open>\<^verbatim>\<open>s.substring(a, b)\<close> for \<open>a \<le> b\<close>; indices beyond the end stop at the end.\<close>

definition substring :: "nat \<Rightarrow> nat \<Rightarrow> string \<Rightarrow> string" where
  "substring a b s = take (b - a) (drop a s)"

definition upper_char :: "char \<Rightarrow> char" where
  "upper_char ch =
     (let n = (of_char ch :: nat) in if 97 \<le> n \<and> n \<le> 122 then char_of (n - 32) else ch)"

definition toUpperCase :: "string \<Rightarrow> string" where
  "toUpperCase s = map upper_char s"

definition new_code :: "nat list \<Rightarrow> string" where
  "new_code ds = toUpperCase (substring 2 10 (toString36 ds))"

subsection \<open>The expiry date\<close>

text \<open>
  The operations on a \<^verbatim>\<open>Date\<close> follow the ECMAScript definitions. The offset of
  the local time zone is an input:
  \<open>tza_utc t\<close> at the instant \<open>t\<close>, \<open>tza_local l\<close> at the local time \<open>l\<close>.
\<close>

definition msPerDay :: int where
  "msPerDay = 86400000"

definition Day :: "int \<Rightarrow> int" where
  "Day t = t div msPerDay"

definition TimeWithinDay :: "int \<Rightarrow> int" where
  "TimeWithinDay t = t mod msPerDay"

text \<open>The day of the month, 1 to 31, of a day number counted from 1 January 1970.\<close>

definition DateFromDay :: "int \<Rightarrow> int" where
  "DateFromDay z =
     (let doe = (z + 719468) mod 146097;
          yoe = (doe - doe div 1460 + doe div 36524 - doe div 146096) div 365;
          doy = doe - (365 * yoe + yoe div 4 - yoe div 100);
          mp = (5 * doy + 2) div 153
      in doy - (153 * mp + 2) div 5 + 1)"

definition DateFromTime :: "int \<Rightarrow> int" where
  "DateFromTime t = DateFromDay (Day t)"

text \<open>
  \<^verbatim>\<open>MakeDay(YearFromTime(t), MonthFromTime(t), dt)\<close>: the day number of the first of
  the month of \<open>t\<close>, plus \<open>dt - 1\<close>. The first of the month of \<open>t\<close> lies
  \<open>DateFromTime t - 1\<close> days before \<open>t\<close>.
\<close>

definition MakeDay_in_month_of :: "int \<Rightarrow> int \<Rightarrow> int" where
  "MakeDay_in_month_of t dt = (Day t - (DateFromTime t - 1)) + dt - 1"

definition MakeDate :: "int \<Rightarrow> int \<Rightarrow> int" where
  "MakeDate day time = day * msPerDay + time"

record zone =
  tza_utc :: "int \<Rightarrow> int"
  tza_local :: "int \<Rightarrow> int"

definition LocalTime :: "zone \<Rightarrow> int \<Rightarrow> int" where
  "LocalTime z t = t + tza_utc z t"

definition UTC :: "zone \<Rightarrow> int \<Rightarrow> int" where
  "UTC z l = l - tza_local z l"

definition getDate :: "zone \<Rightarrow> int \<Rightarrow> int" where
  "getDate z t = DateFromTime (LocalTime z t)"

definition setDate :: "zone \<Rightarrow> jsnum \<Rightarrow> int \<Rightarrow> int option" where
  "setDate z dt this =
     (case dt of
        NaN \<Rightarrow> None
      | Num d \<Rightarrow>
          (let t = LocalTime z this;
               newDate = MakeDate (MakeDay_in_month_of t d) (TimeWithinDay t)
           in TimeClip (UTC z newDate)))"

definition js_add :: "int \<Rightarrow> jsnum \<Rightarrow> jsnum" where
  "js_add a b = (case b of NaN \<Rightarrow> NaN | Num n \<Rightarrow> Num (a + n))"

subsection \<open>The operations\<close>

text \<open>
  What one run of \<^verbatim>\<open>addCoupon\<close> takes from outside: the random draw, the clock
  reading of line 83, the time zone of the browser, the outcomes of the insert and of
  the reload, and the identifier and \<^verbatim>\<open>created_at\<close> the store gives the new row.
\<close>

record add_env =
  random_digits :: "nat list"
  now_click :: int
  local_zone :: zone
  insert_coupon_call :: outcome
  reload_call :: outcome
  new_coupon_ident :: string
  store_created_at :: int

text \<open>
  \<^verbatim>\<open>addCoupon\<close>, lines 81 to 100. \<^verbatim>\<open>toISOString()\<close> of an invalid date throws
  inside the \<^verbatim>\<open>try\<close> block, before the insert is sent.
\<close>

definition addCoupon :: "add_env \<Rightarrow> admin world \<Rightarrow> admin world" where
  "addCoupon e w =
     (let cd = new_code (random_digits e);
          z = local_zone e;
          expires = setDate z (js_add (getDate z (now_click e)) (expiryDays (ui w)))
                      (now_click e)
      in case expires of
           None \<Rightarrow> add_toast (Error ''Failed to add coupon'') w
         | Some stamp \<Rightarrow>
             (case insert_coupon_call e of
                Resolves \<Rightarrow>
                  loadCoupons (reload_call e)
                    (add_toast (Success ''Coupon added successfully'')
                       (w\<lparr>store := insert_coupon (new_coupon_ident e) (store_created_at e)
                                      cd stamp (store w)\<rparr>))
              | _ \<Rightarrow> add_toast (Error ''Failed to add coupon'') w))"

text \<open>
  \<^verbatim>\<open>toggleCouponStatus\<close>, lines 102 to 118. The argument is the row of the table
  the button belongs to.
\<close>

definition toggleCouponStatus :: "outcome \<Rightarrow> outcome \<Rightarrow> coupon \<Rightarrow> admin world \<Rightarrow> admin world" where
  "toggleCouponStatus call reload cp w =
     (let newStatus = (if status cp = ''available'' then ''disabled'' else ''available'')
      in case call of
           Resolves \<Rightarrow>
             loadCoupons reload
               (add_toast
                  (Success (''Coupon '' @ (if newStatus = ''available'' then ''enabled''
                                           else ''disabled'')))
                  (w\<lparr>store := update_coupons (\<lambda>x. ident x = ident cp)
                                 (\<lambda>x. x\<lparr>status := newStatus\<rparr>) (store w)\<rparr>))
         | _ \<Rightarrow> add_toast (Error ''Failed to update coupon status'') w)"

section \<open>The coupon invariant\<close>

text \<open>
  Section 3 of the specification: a claimed coupon has both claim fields set, an
  available coupon has both null.
\<close>

definition coupon_inv :: "coupon \<Rightarrow> bool" where
  "coupon_inv x =
     (if status x = ''claimed'' then claimed_by x \<noteq> None \<and> claimed_at x \<noteq> None
      else if status x = ''available'' then claimed_by x = None \<and> claimed_at x = None
      else True)"

definition db_inv :: "db \<Rightarrow> bool" where
  "db_inv d = list_all coupon_inv (coupons d)"

section \<open>Concrete states\<close>

text \<open>
  A store with one available and one disabled coupon, a store with one claimed coupon,
  a visitor who has not claimed yet, and runs in which every remote call resolves.
\<close>

definition coupon_a :: coupon where
  "coupon_a = \<lparr>ident = ''c1'', code = ''SAVE10'', status = ''available'', claimed_by = None,
                claimed_at = None, expires_at = 1763000000000, created_at = 1762000000000\<rparr>"

definition coupon_d :: coupon where
  "coupon_d = \<lparr>ident = ''c2'', code = ''OLD5'', status = ''disabled'', claimed_by = None,
                claimed_at = None, expires_at = 1763000000000, created_at = 1761000000000\<rparr>"

definition coupon_c :: coupon where
  "coupon_c = \<lparr>ident = ''c3'', code = ''TAKEN'', status = ''claimed'',
                claimed_by = Some ''sess-9'', claimed_at = Some 1762000500000,
                expires_at = 1763000000000, created_at = 1762000000000\<rparr>"

definition visitor :: home where
  "visitor = \<lparr>loading = False, claimedCoupon = None, sessionId = ''sess-1'', canClaim = True,
               timeUntilNextClaim = []\<rparr>"

definition claim_page :: "home world" where
  "claim_page = \<lparr>ui = visitor,
                  jar = \<lparr>coupon_session_id = Some ''sess-1'', last_claim_time = None\<rparr>,
                  store = \<lparr>coupons = [coupon_d, coupon_a], claims = []\<rparr>,
                  toasts = []\<rparr>"

definition claim_page_empty :: "home world" where
  "claim_page_empty = claim_page\<lparr>store := \<lparr>coupons = [coupon_d], claims = []\<rparr>\<rparr>"

definition smooth_run :: claim_env where
  "smooth_run = \<lparr>uuid = ''sess-2'', now_check = 1762070000000, now_update = 1762070000120,
                  now_cookie = 1762070000300, now_status1 = 1762070000300,
                  now_status2 = 1762070000301, client_ip = None,
                  getSession_call = Resolves, select_call = Resolves,
                  update_call = Resolves, insert_call = Resolves, revert_call = Resolves,
                  new_claim_ident = ''k1'', new_claim_created_at = 1762070000200\<rparr>"

definition admin_page :: "admin world" where
  "admin_page = \<lparr>ui = initial_admin\<lparr>listed := [coupon_c]\<rparr>,
                  jar = \<lparr>coupon_session_id = None, last_claim_time = None\<rparr>,
                  store = \<lparr>coupons = [coupon_c], claims = []\<rparr>,
                  toasts = []\<rparr>"

definition utc_zone :: zone where
  "utc_zone = \<lparr>tza_utc = (\<lambda>t. 0), tza_local = (\<lambda>t. 0)\<rparr>"

text \<open>
  A click at 2025-11-02 00:00:00 UTC in a browser on UTC; the draw is one half, which
  is \<^verbatim>\<open>0.i\<close> in base 36; the store stamps the new row a quarter of a second later.
\<close>

definition add_run :: add_env where
  "add_run = \<lparr>random_digits = [18], now_click = 1762041600000, local_zone = utc_zone,
               insert_coupon_call = Resolves, reload_call = Resolves,
               new_coupon_ident = ''c4'', store_created_at = 1762041600250\<rparr>"

definition claim_admin :: "admin world" where
  "claim_admin = \<lparr>ui = initial_admin\<lparr>listed := [coupon_a, coupon_d]\<rparr>,
                   jar = \<lparr>coupon_session_id = None, last_claim_time = None\<rparr>,
                   store = \<lparr>coupons = [coupon_d, coupon_a], claims = []\<rparr>,
                   toasts = []\<rparr>"

section \<open>Properties of the rate limiter\<close>

lemma TimeClip_valid: "valid_time t \<Longrightarrow> TimeClip t = Some t"
  by (simp add: TimeClip_def valid_time_def)

lemma ceil_div_int:
  fixes a b :: int
  assumes "b \<noteq> 0"
  shows "- (- a div b) = (if a mod b = 0 then a div b else a div b + 1)"
  using assms by (simp add: zdiv_zminus1_eq_if)

lemma ceiling_minutes:
  "\<lceil>real_of_int (T + 3600000 - N) / (1000 * 60)\<rceil> = spec_remaining_minutes T N"
proof -
  have "\<lceil>real_of_int (T + 3600000 - N) / real_of_int 60000\<rceil> = - (- (T + 3600000 - N) div 60000)"
    by (rule ceiling_divide_eq_div)
  moreover have "- (- (T + 3600000 - N) div 60000) = spec_remaining_minutes T N"
    unfolding spec_remaining_minutes_def Let_def by (rule ceil_div_int) simp
  ultimately show ?thesis
    by simp
qed

lemma spec_remaining_minutes_bounds:
  "(spec_remaining_minutes T N - 1) * 60000 < T + 3600000 - N
   \<and> T + 3600000 - N \<le> spec_remaining_minutes T N * 60000"
proof -
  define r where "r = T + 3600000 - N"
  define q where "q = r div 60000"
  define m where "m = r mod 60000"
  have r: "r = q * 60000 + m"
    by (simp add: q_def m_def)
  have m: "0 \<le> m" "m < 60000"
    by (simp_all add: m_def)
  have s: "spec_remaining_minutes T N = (if m = 0 then q else q + 1)"
    by (simp add: spec_remaining_minutes_def Let_def r_def q_def m_def)
  show ?thesis
    unfolding r_def[symmetric] s using r m by (cases "m = 0") simp_all
qed

subsection \<open>The double arithmetic of line 111\<close>

lemma round_half_even_gt: "y - 1 < real_of_int (round_half_even y)"
proof -
  have a: "y - 1 < real_of_int \<lfloor>y\<rfloor>"
    by linarith
  have b: "y - 1 < real_of_int (\<lfloor>y\<rfloor> + 1)"
    by linarith
  have "round_half_even y = \<lfloor>y\<rfloor> \<or> round_half_even y = \<lfloor>y\<rfloor> + 1"
    by (simp add: round_half_even_def Let_def)
  then show ?thesis
    using a b by metis
qed

lemma double_difference_exact:
  assumes "\<bar>a - b\<bar> \<le> 9007199254740992"
  shows "double_difference a b = a - b"
  using assms by (simp add: double_difference_def Let_def)

lemma double_difference_far:
  assumes "9007199254740992 < a - b"
  shows "9007199254740992 \<le> double_difference a b"
  using assms by (simp add: double_difference_def Let_def)

lemma rounded_quotient_gt:
  fixes q g :: real
  assumes "1 \<le> g"
  shows "q - 1 < real_of_int (round_half_even (q * g)) / g"
proof -
  have "q * g - 1 < real_of_int (round_half_even (q * g))"
    by (rule round_half_even_gt)
  then have "(q * g - 1) / g < real_of_int (round_half_even (q * g)) / g"
    using assms by (simp add: divide_strict_right_mono)
  moreover have "(q * g - 1) / g = q - 1 / g"
    using assms by (simp add: diff_divide_distrib)
  moreover have "1 / g \<le> 1"
    using assms by simp
  ultimately show ?thesis
    by linarith
qed

lemma ceil_minutes_exact:
  assumes "\<bar>x\<bar> \<le> 9007199254740992"
  shows "ceil_minutes x = \<lceil>real_of_int x / (1000 * 60)\<rceil>"
  using assms by (simp add: ceil_minutes_def Let_def)

lemma ceil_minutes_far:
  assumes "9007199254740992 \<le> x"
  shows "60 < ceil_minutes x"
proof -
  define q where "q = real_of_int x / 60000"
  have big: "9007199254740992 \<le> real_of_int x"
    using assms by linarith
  then have q: "61 < q"
    by (simp add: q_def)
  have a: "60 < \<lceil>q\<rceil>"
    using q by linarith
  have "60 < real_of_int (round_half_even (q * 32768)) / 32768"
    using rounded_quotient_gt[of 32768 q] q by simp
  then have b: "60 < \<lceil>real_of_int (round_half_even (q * 32768)) / 32768\<rceil>"
    by linarith
  have "60 < real_of_int (round_half_even (q * 16384)) / 16384"
    using rounded_quotient_gt[of 16384 q] q by simp
  then have c: "60 < \<lceil>real_of_int (round_half_even (q * 16384)) / 16384\<rceil>"
    by linarith
  show ?thesis
    using a b c by (simp add: ceil_minutes_def Let_def q_def)
qed

lemma minutesLeft_near:
  assumes "valid_time (T + 3600000)" and "\<bar>T + 3600000 - N\<bar> \<le> 9007199254740992"
  shows "minutesLeft T N = Some (spec_remaining_minutes T N)"
  using TimeClip_valid[OF assms(1)] double_difference_exact[OF assms(2)]
    ceil_minutes_exact[OF assms(2)] ceiling_minutes[of T N]
  by (simp add: minutesLeft_def)

lemma minutesLeft_far:
  assumes "valid_time (T + 3600000)" and "9007199254740992 < T + 3600000 - N"
  shows "\<exists>m. minutesLeft T N = Some m \<and> 60 < m"
  using TimeClip_valid[OF assms(1)] ceil_minutes_far[OF double_difference_far[OF assms(2)]]
  by (simp add: minutesLeft_def)

text \<open>
  Two clock readings far enough apart for the rounding to show: the quotient lies
  1/60000 above the integer -277333333334 and is rounded onto it.
\<close>

lemma minutesLeft_rounded_example:
  "minutesLeft (- 8640000003600000) 8000000000039999 = Some (- 277333333334)
   \<and> spec_remaining_minutes (- 8640000003600000) 8000000000039999 = - 277333333333"
  by (simp add: minutesLeft_def TimeClip_def double_difference_def ceil_minutes_def
        round_half_even_def spec_remaining_minutes_def Let_def)

text \<open>
  The comparison of line 51 does not feel the rounding: the rounded difference of two
  clock readings is at least one hour exactly when the exact difference is.
\<close>

lemma double_difference_hour:
  "(3600000 \<le> double_difference a b) = (3600000 \<le> a - b)"
  by (auto simp add: double_difference_def Let_def)

text \<open>
  C2. With a last-claim timestamp \<open>T\<close> (a time value of \<^verbatim>\<open>Date\<close>) and the clock at
  \<open>N\<close> the rate limiter answers eligible exactly when \<open>N - T\<close> is at least one hour
  (3600000 ms), the boundary included; with no last-claim timestamp it answers
  eligible at every \<open>N\<close>.
\<close>

theorem canUserClaim_one_hour:
  "(valid_time T \<longrightarrow>
      canUserClaim (c\<lparr>last_claim_time := Some T\<rparr>) N = (N - T \<ge> 3600000)
      \<and> canUserClaim (c\<lparr>last_claim_time := Some T\<rparr>) (T + 3600000))
   \<and> canUserClaim (c\<lparr>last_claim_time := None\<rparr>) N"
proof -
  have a: "canUserClaim (c\<lparr>last_claim_time := Some T\<rparr>) M = (M - T \<ge> 3600000)"
    if "valid_time T" for M
    using TimeClip_valid[OF that] by (simp add: canUserClaim_def) linarith
  have b: "canUserClaim (c\<lparr>last_claim_time := None\<rparr>) N"
    by (simp add: canUserClaim_def)
  show ?thesis
    using a[of N] a[of "T + 3600000"] b by simp
qed

theorem canUserClaim_one_hour_witness:
  "valid_time 1000
   \<and> canUserClaim \<lparr>coupon_session_id = None, last_claim_time = Some 1000\<rparr> 3601000
   \<and> \<not> canUserClaim \<lparr>coupon_session_id = None, last_claim_time = Some 1000\<rparr> 3600999
   \<and> canUserClaim \<lparr>coupon_session_id = None, last_claim_time = None\<rparr> 0"
  using canUserClaim_one_hour
          [where c = "\<lparr>coupon_session_id = None, last_claim_time = None\<rparr>"
             and T = 1000 and N = 3601000]
        canUserClaim_one_hour
          [where c = "\<lparr>coupon_session_id = None, last_claim_time = None\<rparr>"
             and T = 1000 and N = 3600999]
        canUserClaim_one_hour
          [where c = "\<lparr>coupon_session_id = None, last_claim_time = None\<rparr>"
             and T = 1000 and N = 0]
  by (simp add: valid_time_def)

lemma number_to_string_1: "number_to_string 1 = ''1''"
  by (simp add: number_to_string_def nat_to_string.simps digit_char_def)

lemma waitMessage_spec:
  assumes "valid_time (T + 3600000)" and "N - T < 3600000"
  shows "waitMessage T N = spec_wait_message T N"
proof (cases "T + 3600000 - N \<le> 9007199254740992")
  case True
  then have "\<bar>T + 3600000 - N\<bar> \<le> 9007199254740992"
    using assms(2) by simp
  then show ?thesis
    by (simp add: waitMessage_def spec_wait_message_def minutesLeft_near[OF assms(1)]
          Let_def number_to_string_1)
next
  case False
  then have far: "9007199254740992 < T + 3600000 - N"
    by simp
  obtain m where m: "minutesLeft T N = Some m" "60 < m"
    using minutesLeft_far[OF assms(1) far] by blast
  have "60 < spec_remaining_minutes T N"
    using spec_remaining_minutes_bounds[of T N] far by simp
  then show ?thesis
    using m by (simp add: waitMessage_def spec_wait_message_def Let_def)
qed

lemma spec_wait_message_45: "spec_wait_message T (T + 2700000) = ''15 minutes''"
  by (simp add: spec_wait_message_def spec_remaining_minutes_def number_to_string_def
        nat_to_string.simps digit_char_def)

lemma spec_wait_message_1: "spec_wait_message T (T + 60000) = ''59 minutes''"
  by (simp add: spec_wait_message_def spec_remaining_minutes_def number_to_string_def
        nat_to_string.simps digit_char_def)

lemma updateClaimStatus_ineligible:
  assumes "M - T < 3600000"
  shows "updateClaimStatus M M (c\<lparr>last_claim_time := Some T\<rparr>) h
           = h\<lparr>canClaim := False, timeUntilNextClaim := waitMessage T M\<rparr>"
proof -
  have "\<not> canUserClaim (c\<lparr>last_claim_time := Some T\<rparr>) M"
    using assms by (simp add: canUserClaim_def TimeClip_def)
  then show ?thesis
    by (simp add: updateClaimStatus_def Let_def)
qed

text \<open>
  C8. With a last claim at \<open>T\<close>, the one-hour boundary \<open>T + 3600000\<close> being a time
  value of \<^verbatim>\<open>Date\<close>, and the clock at \<open>N\<close>, less than one hour later, the page is
  not eligible and the text it stores is the one the specification describes: the
  remaining minutes to \<open>T\<close> plus one hour, rounded up (the least number of whole
  minutes that covers the remaining milliseconds), shown as "1 hour" above 60 and as
  "n minute(s)" otherwise. 45 minutes after the claim the text is "15 minutes", one
  minute after it the text is "59 minutes".
\<close>

theorem wait_message_rounds_up:
  assumes "valid_time (T + 3600000)" and "N - T < 3600000"
  shows "\<not> canClaim (updateClaimStatus N N (c\<lparr>last_claim_time := Some T\<rparr>) h)
     \<and> timeUntilNextClaim (updateClaimStatus N N (c\<lparr>last_claim_time := Some T\<rparr>) h)
         = spec_wait_message T N
     \<and> (spec_remaining_minutes T N - 1) * 60000 < T + 3600000 - N
     \<and> T + 3600000 - N \<le> spec_remaining_minutes T N * 60000
     \<and> timeUntilNextClaim (updateClaimStatus (T + 45 * 60000) (T + 45 * 60000)
           (c\<lparr>last_claim_time := Some T\<rparr>) h) = ''15 minutes''
     \<and> timeUntilNextClaim (updateClaimStatus (T + 60000) (T + 60000)
           (c\<lparr>last_claim_time := Some T\<rparr>) h) = ''59 minutes''"
proof -
  have a: "waitMessage T (T + 2700000) = ''15 minutes''"
    using waitMessage_spec[OF assms(1), of "T + 2700000"] by (simp add: spec_wait_message_45)
  have b: "waitMessage T (T + 60000) = ''59 minutes''"
    using waitMessage_spec[OF assms(1), of "T + 60000"] by (simp add: spec_wait_message_1)
  show ?thesis
    using assms(2) spec_remaining_minutes_bounds[of T N]
    by (simp add: updateClaimStatus_ineligible waitMessage_spec[OF assms] a b)
qed

theorem wait_message_rounds_up_witness:
  "valid_time (400 + 3600000)
   \<and> \<not> canClaim (updateClaimStatus 1000 1000
        \<lparr>coupon_session_id = None, last_claim_time = Some 400\<rparr>
        \<lparr>loading = False, claimedCoupon = None, sessionId = ''s'', canClaim = True,
         timeUntilNextClaim = []\<rparr>)
   \<and> spec_wait_message 400 1000 = ''60 minutes''"
  using wait_message_rounds_up [where N = 1000 and T = 400
      and c = "\<lparr>coupon_session_id = None, last_claim_time = None\<rparr>"
      and h = "\<lparr>loading = False, claimedCoupon = None, sessionId = ''s'', canClaim = True,
         timeUntilNextClaim = []\<rparr>"]
  by (simp add: valid_time_def spec_wait_message_def spec_remaining_minutes_def
        number_to_string_def nat_to_string.simps digit_char_def)

lemma spec_wait_message_singular:
  "(spec_wait_message T N = ''1 minute'') = (spec_remaining_minutes T N = 1)"
proof
  assume eq: "spec_wait_message T N = ''1 minute''"
  show "spec_remaining_minutes T N = 1"
  proof (rule ccontr)
    assume ne: "spec_remaining_minutes T N \<noteq> 1"
    show False
    proof (cases "spec_remaining_minutes T N > 60")
      case True
      then show False using eq by (simp add: spec_wait_message_def)
    next
      case False
      then have "spec_wait_message T N =
                   number_to_string (spec_remaining_minutes T N) @ '' minutes''"
        using ne by (simp add: spec_wait_message_def)
      then have "last (spec_wait_message T N) = CHR ''s''"
        by simp
      then show False using eq by simp
    qed
  qed
next
  assume "spec_remaining_minutes T N = 1"
  then show "spec_wait_message T N = ''1 minute''"
    by (simp add: spec_wait_message_def)
qed

text \<open>
  C10. The page is not eligible: the clock \<open>N\<close> is less than one hour after the last
  claim \<open>T\<close>, whose one-hour boundary is a time value of \<^verbatim>\<open>Date\<close>. The remaining
  milliseconds to the boundary, rounded up to whole minutes, are the least \<open>n\<close> with
  \<open>n\<close> times 60000 covering them. When \<open>n\<close> is 60, as it is at \<open>N = T\<close>, the text
  the page stores is "60 minutes", not "1 hour". The stored text is "1 minute" exactly
  when \<open>n\<close> is 1; for every other \<open>n\<close> up to 60 it is \<open>n\<close> followed by "minutes",
  and above 60 it is "1 hour".
\<close>

theorem sixty_minutes_not_one_hour:
  assumes "valid_time (T + 3600000)" and "N - T < 3600000"
    and "n = spec_remaining_minutes T N"
    and "stored = timeUntilNextClaim
                    (updateClaimStatus N N (c\<lparr>last_claim_time := Some T\<rparr>) h)"
  shows "(n - 1) * 60000 < T + 3600000 - N \<and> T + 3600000 - N \<le> n * 60000
     \<and> \<not> canClaim (updateClaimStatus N N (c\<lparr>last_claim_time := Some T\<rparr>) h)
     \<and> (n = 60 \<longrightarrow> stored = ''60 minutes'')
     \<and> (N = T \<longrightarrow> n = 60 \<and> stored = ''60 minutes'')
     \<and> ((stored = ''1 minute'') = (n = 1))
     \<and> (n \<le> 60 \<and> n \<noteq> 1 \<longrightarrow> stored = number_to_string n @ '' minutes'')
     \<and> (60 < n \<longrightarrow> stored = ''1 hour'')"
proof -
  have st: "stored = spec_wait_message T N"
    unfolding assms(4)
    by (simp add: updateClaimStatus_ineligible[OF assms(2)] waitMessage_spec[OF assms(1,2)])
  have bounds: "(n - 1) * 60000 < T + 3600000 - N \<and> T + 3600000 - N \<le> n * 60000"
    unfolding assms(3) by (rule spec_remaining_minutes_bounds)
  have inel: "\<not> canClaim (updateClaimStatus N N (c\<lparr>last_claim_time := Some T\<rparr>) h)"
    by (simp add: updateClaimStatus_ineligible[OF assms(2)])
  have sixty: "stored = ''60 minutes''" if "n = 60"
    using that unfolding st assms(3)
    by (simp add: spec_wait_message_def number_to_string_def nat_to_string.simps
          digit_char_def)
  have at_claim: "n = 60" if "N = T"
    using that unfolding assms(3) by (simp add: spec_remaining_minutes_def)
  have singular: "(stored = ''1 minute'') = (n = 1)"
    unfolding st assms(3) by (rule spec_wait_message_singular)
  have plural: "stored = number_to_string n @ '' minutes''" if "n \<le> 60 \<and> n \<noteq> 1"
    using that unfolding st assms(3) by (simp add: spec_wait_message_def)
  have hour: "stored = ''1 hour''" if "60 < n"
    using that unfolding st assms(3) by (simp add: spec_wait_message_def)
  show ?thesis
    using bounds inel sixty at_claim singular plural hour by blast
qed

theorem sixty_minutes_not_one_hour_witness:
  "valid_time (5000 + 3600000)
   \<and> spec_remaining_minutes 5000 5000 = 60
   \<and> timeUntilNextClaim (updateClaimStatus 5000 5000
        \<lparr>coupon_session_id = None, last_claim_time = Some 5000\<rparr>
        \<lparr>loading = False, claimedCoupon = None, sessionId = ''s'', canClaim = True,
         timeUntilNextClaim = []\<rparr>) = ''60 minutes''
   \<and> spec_remaining_minutes 0 3599000 = 1
   \<and> timeUntilNextClaim (updateClaimStatus 3599000 3599000
        \<lparr>coupon_session_id = None, last_claim_time = Some 0\<rparr>
        \<lparr>loading = False, claimedCoupon = None, sessionId = ''s'', canClaim = True,
         timeUntilNextClaim = []\<rparr>) = ''1 minute''"
  using sixty_minutes_not_one_hour [where T = 5000 and N = 5000 and n = 60
      and c = "\<lparr>coupon_session_id = None, last_claim_time = None\<rparr>"
      and h = "\<lparr>loading = False, claimedCoupon = None, sessionId = ''s'', canClaim = True,
         timeUntilNextClaim = []\<rparr>", OF _ _ _ refl]
    sixty_minutes_not_one_hour [where T = 0 and N = 3599000 and n = 1
      and c = "\<lparr>coupon_session_id = None, last_claim_time = None\<rparr>"
      and h = "\<lparr>loading = False, claimedCoupon = None, sessionId = ''s'', canClaim = True,
         timeUntilNextClaim = []\<rparr>", OF _ _ _ refl]
  by (simp add: valid_time_def spec_remaining_minutes_def)

section \<open>Properties of the claim workflow\<close>

lemma find_filter_single:
  assumes "filter p xs = [a]"
  shows "find p xs = Some a"
  using assms
proof (induction xs)
  case Nil
  then show ?case by simp
next
  case (Cons x xs)
  then show ?case by (cases "p x") simp_all
qed

lemma find_filter_none:
  assumes "filter p xs = []"
  shows "find p xs = None"
  using assms by (simp add: find_None_iff filter_empty_conv)

lemma filter_single_members:
  assumes "filter p xs = [a]"
  shows "p a" and "\<And>x. x \<in> set xs \<Longrightarrow> p x \<Longrightarrow> x = a"
proof -
  have "a \<in> set (filter p xs)"
    unfolding assms by simp
  then show "p a" by simp
  fix x assume "x \<in> set xs" "p x"
  then have "x \<in> set (filter p xs)" by simp
  then have "x \<in> set [a]" unfolding assms .
  then show "x = a" by simp
qed

lemma mark_claimed_single:
  assumes "filter (\<lambda>x. status x = ''available'') (coupons d) = [cp]"
  shows "coupons (mark_claimed sid now cp d) =
           map (\<lambda>x. if x = cp
                     then cp\<lparr>status := ''claimed'', claimed_by := Some sid,
                             claimed_at := Some now\<rparr>
                     else x) (coupons d)"
proof -
  have a: "status cp = ''available''"
    using filter_single_members(1)[OF assms] .
  have b: "\<And>x. x \<in> set (coupons d) \<Longrightarrow> status x = ''available'' \<Longrightarrow> x = cp"
    using filter_single_members(2)[OF assms] .
  have pointwise:
    "(if ident x = ident cp \<and> status x = ''available''
      then x\<lparr>status := ''claimed'', claimed_by := Some sid, claimed_at := Some now\<rparr>
      else x)
     = (if x = cp
        then cp\<lparr>status := ''claimed'', claimed_by := Some sid, claimed_at := Some now\<rparr>
        else x)"
    if "x \<in> set (coupons d)" for x
  proof (cases "x = cp")
    case True
    then show ?thesis using a by simp
  next
    case False
    then have "status x \<noteq> ''available''"
      using b[OF that] by blast
    then show ?thesis using False by simp
  qed
  have "map (\<lambda>x. if ident x = ident cp \<and> status x = ''available''
                 then x\<lparr>status := ''claimed'', claimed_by := Some sid,
                         claimed_at := Some now\<rparr>
                 else x) (coupons d)
        = map (\<lambda>x. if x = cp
                 then cp\<lparr>status := ''claimed'', claimed_by := Some sid,
                         claimed_at := Some now\<rparr>
                 else x) (coupons d)"
    by (rule map_cong[OF refl]) (rule pointwise)
  then show ?thesis
    by (simp add: mark_claimed_def update_coupons_def)
qed

lemma revert_after_mark:
  "coupons (revert_claimed cp (mark_claimed sid now cp d)) =
     map (\<lambda>x. if ident x = ident cp
               then x\<lparr>status := ''available'', claimed_by := None, claimed_at := None\<rparr>
               else x) (coupons d)"
  by (simp add: revert_claimed_def mark_claimed_def update_coupons_def)

lemma claims_mark_claimed: "claims (mark_claimed sid now cp d) = claims d"
  by (simp add: mark_claimed_def update_coupons_def)

lemma claims_revert_claimed: "claims (revert_claimed cp d) = claims d"
  by (simp add: revert_claimed_def update_coupons_def)

lemma eligible_iff:
  "canUserClaim c N =
     (case last_claim_time c of None \<Rightarrow> True
      | Some T \<Rightarrow> valid_time T \<and> 3600000 \<le> N - T)"
proof (cases "last_claim_time c")
  case None
  then show ?thesis by (simp add: canUserClaim_def)
next
  case (Some T)
  show ?thesis
  proof (cases "valid_time T")
    case True
    have "(3600000 \<le> real_of_int N - real_of_int T) = (3600000 \<le> N - T)"
      by linarith
    then show ?thesis
      using Some True TimeClip_valid[OF True] by (simp add: canUserClaim_def)
  next
    case False
    then show ?thesis
      using Some by (simp add: canUserClaim_def TimeClip_def valid_time_def)
  qed
qed

lemma claimCoupon_enters_try:
  assumes "sessionId (ui w) \<noteq> []"
    and "case last_claim_time (jar w) of None \<Rightarrow> True
         | Some T \<Rightarrow> valid_time T \<and> 3600000 \<le> now_check e - T"
  shows "claimCoupon e w =
           (let w3 = claim_try e (sessionId (ui w)) (w\<lparr>ui := (ui w)\<lparr>loading := True\<rparr>\<rparr>)
            in w3\<lparr>ui := (ui w3)\<lparr>loading := False\<rparr>\<rparr>)"
  using assms by (simp add: claimCoupon_def eligible_iff Let_def)

lemma ui_updateClaimStatus:
  "loading (updateClaimStatus a b c h) = loading h"
  "claimedCoupon (updateClaimStatus a b c h) = claimedCoupon h"
  "sessionId (updateClaimStatus a b c h) = sessionId h"
  by (simp_all add: updateClaimStatus_def Let_def)

text \<open>
  C1. The store holds exactly one available coupon \<open>cp\<close>, the session is initialised,
  its last-claim timestamp is absent or a time value at least one hour old, and the
  remote client answers every call without error. Then the workflow succeeds: \<open>cp\<close>
  is claimed by the session at the clock reading of the update and no other row
  changes, one claim row for \<open>cp\<close> is added, the last-claim cookie holds the clock
  reading of its writing, the code of \<open>cp\<close> is shown, and the success notification is
  the only new one.
\<close>

theorem claimCoupon_succeeds:
  assumes "sessionId (ui w) \<noteq> []"
    and "filter (\<lambda>x. status x = ''available'') (coupons (store w)) = [cp]"
    and "case last_claim_time (jar w) of None \<Rightarrow> True
         | Some T \<Rightarrow> valid_time T \<and> 3600000 \<le> now_check e - T"
    and "getSession_call e \<noteq> Rejects"
    and "select_call e = Resolves"
    and "update_call e = Resolves"
    and "insert_call e = Resolves"
  shows "coupons (store (claimCoupon e w)) =
           map (\<lambda>x. if x = cp
                     then cp\<lparr>status := ''claimed'', claimed_by := Some (sessionId (ui w)),
                             claimed_at := Some (now_update e)\<rparr>
                     else x) (coupons (store w))
     \<and> claims (store (claimCoupon e w)) =
           claims (store w) @
             [\<lparr>claim_ident = new_claim_ident e, coupon_id = ident cp,
               ip_address = ip_or_sentinel (client_ip e), session_id = sessionId (ui w),
               claim_created_at = new_claim_created_at e\<rparr>]
     \<and> last_claim_time (jar (claimCoupon e w)) = Some (now_cookie e)
     \<and> claimedCoupon (ui (claimCoupon e w)) = Some (code cp)
     \<and> toasts (claimCoupon e w) = toasts w @ [Success ''Coupon claimed successfully!'']
     \<and> \<not> loading (ui (claimCoupon e w))"
proof -
  have sel: "select_available (store w) = Some cp"
    unfolding select_available_def using assms(2) by (rule find_filter_single)
  have gs: "getSession_call e = Resolves \<or> getSession_call e = Errors"
    using assms(4) by (cases "getSession_call e") simp_all
  have run: "claim_try e (sessionId (ui w)) (w\<lparr>ui := (ui w)\<lparr>loading := True\<rparr>\<rparr>) =
      claim_succeeded e cp
        (w\<lparr>ui := (ui w)\<lparr>loading := True\<rparr>,
           store := insert_claim
              \<lparr>claim_ident = new_claim_ident e, coupon_id = ident cp,
               ip_address = ip_or_sentinel (client_ip e), session_id = sessionId (ui w),
               claim_created_at = new_claim_created_at e\<rparr>
              (mark_claimed (sessionId (ui w)) (now_update e) cp (store w))\<rparr>)"
    using gs sel assms(5,6,7) by (auto simp add: claim_try_def claim_record_def)
  show ?thesis
    unfolding claimCoupon_enters_try[OF assms(1) assms(3)] run
    by (simp add: Let_def claim_succeeded_def add_toast_def insert_claim_def
          setLastClaimTime_def ui_updateClaimStatus mark_claimed_single[OF assms(2)]
          claims_mark_claimed)
qed

text \<open>
  The insertion of the claim row can fail in two ways: the call answers with an error,
  which line 181 tests, or it throws, which the \<^verbatim>\<open>catch\<close> of line 201 receives.

  First the error answer. The session is initialised and under its rate limit, the
  select returned the coupon \<open>cp\<close>, the update went through and the insertion of the
  claim row came back with an error. Then the only new notification is "Failed to claim
  coupon", whatever the compensating update does (resolve, error or reject); no claim
  row is added and the cookie is not touched. The compensating update is sent: when it
  resolves, every row with the identifier of \<open>cp\<close> is available with both claim
  fields null and all other rows are as before; when it does not, the store stays as
  the first update left it.
\<close>

lemma insert_error_is_compensated:
  assumes "sessionId (ui w) \<noteq> []"
    and "case last_claim_time (jar w) of None \<Rightarrow> True
         | Some T \<Rightarrow> valid_time T \<and> 3600000 \<le> now_check e - T"
    and "getSession_call e \<noteq> Rejects"
    and "select_call e = Resolves"
    and "select_available (store w) = Some cp"
    and "update_call e = Resolves"
    and "insert_call e = Errors"
  shows "toasts (claimCoupon e w) =
           toasts w @ [Error ''Failed to claim coupon. Please try again later.'']
     \<and> coupons (store (claimCoupon e w)) =
          (if revert_call e = Resolves
           then map (\<lambda>x. if ident x = ident cp
                          then x\<lparr>status := ''available'', claimed_by := None,
                                  claimed_at := None\<rparr>
                          else x) (coupons (store w))
           else coupons (mark_claimed (sessionId (ui w)) (now_update e) cp (store w)))
     \<and> claims (store (claimCoupon e w)) = claims (store w)
     \<and> jar (claimCoupon e w) = jar w
     \<and> claimedCoupon (ui (claimCoupon e w)) = claimedCoupon (ui w)"
proof -
  have gs: "getSession_call e = Resolves \<or> getSession_call e = Errors"
    using assms(3) by (cases "getSession_call e") simp_all
  show ?thesis
    unfolding claimCoupon_enters_try[OF assms(1) assms(2)]
    using gs assms(4,5,6,7)
    by (cases "revert_call e")
       (auto simp add: claim_try_def claim_record_def add_toast_def failed_to_claim_def
          revert_after_mark claims_mark_claimed claims_revert_claimed)
qed

text \<open>
  Then the thrown insertion, under the same conditions. The notification is the same,
  but no compensating update is sent: the store stays as the first update left it, with
  the coupon claimed and no claim row for it.
\<close>

lemma insert_rejection_is_not_compensated:
  assumes "sessionId (ui w) \<noteq> []"
    and "case last_claim_time (jar w) of None \<Rightarrow> True
         | Some T \<Rightarrow> valid_time T \<and> 3600000 \<le> now_check e - T"
    and "getSession_call e \<noteq> Rejects"
    and "select_call e = Resolves"
    and "select_available (store w) = Some cp"
    and "update_call e = Resolves"
    and "insert_call e = Rejects"
  shows "toasts (claimCoupon e w) =
           toasts w @ [Error ''Failed to claim coupon. Please try again later.'']
     \<and> store (claimCoupon e w) = mark_claimed (sessionId (ui w)) (now_update e) cp (store w)
     \<and> claims (store (claimCoupon e w)) = claims (store w)
     \<and> jar (claimCoupon e w) = jar w"
proof -
  have gs: "getSession_call e = Resolves \<or> getSession_call e = Errors"
    using assms(3) by (cases "getSession_call e") simp_all
  show ?thesis
    unfolding claimCoupon_enters_try[OF assms(1) assms(2)]
    using gs assms(4,5,6,7)
    by (auto simp add: claim_try_def claim_record_def add_toast_def failed_to_claim_def
          claims_mark_claimed)
qed

lemma claim_try_no_coupon_store:
  assumes "select_available (store w) = None"
  shows "store (claim_try e sid w) = store w \<and> jar (claim_try e sid w) = jar w"
  using assms
  by (cases "getSession_call e"; cases "select_call e")
     (simp_all add: claim_try_def add_toast_def)

lemma getOrCreateSessionId_last_claim:
  "last_claim_time (snd (getOrCreateSessionId u c)) = last_claim_time c"
  by (simp add: getOrCreateSessionId_def split: option.splits)

text \<open>
  C4. No coupon of the store is available. Then a run of the workflow, on any path,
  leaves every coupon row, every claim row and the last-claim cookie as they were; and
  for an initialised session under its rate limit, with a remote client that answers
  the session call and the select (with or without an error), the only new
  notification is "No coupons available".
\<close>

theorem no_coupon_available:
  assumes "filter (\<lambda>x. status x = ''available'') (coupons (store w)) = []"
  shows "store (claimCoupon e w) = store w
     \<and> last_claim_time (jar (claimCoupon e w)) = last_claim_time (jar w)
     \<and> (sessionId (ui w) \<noteq> []
          \<and> (case last_claim_time (jar w) of None \<Rightarrow> True
              | Some T \<Rightarrow> valid_time T \<and> 3600000 \<le> now_check e - T)
          \<and> getSession_call e \<noteq> Rejects \<and> select_call e \<noteq> Rejects
        \<longrightarrow> toasts (claimCoupon e w) =
              toasts w @ [Error ''No coupons available at the moment. Please try again later.''])"
proof -
  have sel: "\<And>v. store v = store w \<Longrightarrow> select_available (store v) = None"
    unfolding select_available_def using assms by (simp add: find_filter_none)
  have st: "store (claimCoupon e w) = store w
            \<and> last_claim_time (jar (claimCoupon e w)) = last_claim_time (jar w)"
  proof (cases "sessionId (ui w) = []")
    case False
    then show ?thesis
      using sel[of "w\<lparr>ui := (ui w)\<lparr>loading := True\<rparr>\<rparr>"]
      by (simp add: claimCoupon_def Let_def add_toast_def claim_try_no_coupon_store)
  next
    case True
    obtain s j where g: "getOrCreateSessionId (uuid e) (jar w) = (s, j)"
      by (cases "getOrCreateSessionId (uuid e) (jar w)")
    have j: "last_claim_time j = last_claim_time (jar w)"
      using getOrCreateSessionId_last_claim[of "uuid e" "jar w"] g by simp
    show ?thesis
      using True g j
        sel[of "w\<lparr>jar := j, ui := (ui w)\<lparr>sessionId := s, loading := True\<rparr>\<rparr>"]
      by (simp add: claimCoupon_def Let_def add_toast_def claim_try_no_coupon_store)
  qed
  have ts: "toasts (claimCoupon e w) =
              toasts w @ [Error ''No coupons available at the moment. Please try again later.'']"
    if a: "sessionId (ui w) \<noteq> []"
      and b: "case last_claim_time (jar w) of None \<Rightarrow> True
              | Some T \<Rightarrow> valid_time T \<and> 3600000 \<le> now_check e - T"
      and c: "getSession_call e \<noteq> Rejects" and d: "select_call e \<noteq> Rejects"
    unfolding claimCoupon_enters_try[OF a b]
    using c d sel[of "w\<lparr>ui := (ui w)\<lparr>loading := True\<rparr>\<rparr>"]
    by (cases "getSession_call e"; cases "select_call e")
       (simp_all add: claim_try_def Let_def add_toast_def no_coupons_def)
  show ?thesis
    using st ts by blast
qed

theorem claimCoupon_succeeds_witness:
  "sessionId (ui claim_page) \<noteq> []
   \<and> filter (\<lambda>x. status x = ''available'') (coupons (store claim_page)) = [coupon_a]
   \<and> last_claim_time (jar claim_page) = None
   \<and> coupons (store (claimCoupon smooth_run claim_page)) =
        [coupon_d, coupon_a\<lparr>status := ''claimed'', claimed_by := Some ''sess-1'',
                            claimed_at := Some 1762070000120\<rparr>]
   \<and> map coupon_id (claims (store (claimCoupon smooth_run claim_page))) = [''c1'']
   \<and> last_claim_time (jar (claimCoupon smooth_run claim_page)) = Some 1762070000300
   \<and> claimedCoupon (ui (claimCoupon smooth_run claim_page)) = Some ''SAVE10''"
  using claimCoupon_succeeds [of claim_page coupon_a smooth_run]
  by (simp add: claim_page_def visitor_def coupon_a_def coupon_d_def smooth_run_def)

text \<open>
  C3 fails when the insertion throws. The visitor is under the rate limit and the store
  holds the available coupon SAVE10. In the run where the insertion answers with an
  error, SAVE10 is available again afterwards, with both claim fields null. In the run
  where the insertion throws, the visitor sees the same "Failed to claim coupon"
  notification, but SAVE10 stays claimed by the visitor's session and there is no claim
  row for it.
\<close>

theorem rejected_insert_is_not_compensated:
  "select_available (store claim_page) = Some coupon_a
   \<and> coupons (store (claimCoupon (smooth_run\<lparr>insert_call := Errors\<rparr>) claim_page)) =
        [coupon_d, coupon_a]
   \<and> toasts (claimCoupon (smooth_run\<lparr>insert_call := Errors\<rparr>) claim_page) =
        [Error ''Failed to claim coupon. Please try again later.'']
   \<and> coupons (store (claimCoupon (smooth_run\<lparr>insert_call := Rejects\<rparr>) claim_page)) =
        [coupon_d, coupon_a\<lparr>status := ''claimed'', claimed_by := Some ''sess-1'',
                            claimed_at := Some 1762070000120\<rparr>]
   \<and> claims (store (claimCoupon (smooth_run\<lparr>insert_call := Rejects\<rparr>) claim_page)) = []
   \<and> toasts (claimCoupon (smooth_run\<lparr>insert_call := Rejects\<rparr>) claim_page) =
        [Error ''Failed to claim coupon. Please try again later.'']"
  using insert_error_is_compensated
          [of claim_page "smooth_run\<lparr>insert_call := Errors\<rparr>" coupon_a]
        insert_rejection_is_not_compensated
          [of claim_page "smooth_run\<lparr>insert_call := Rejects\<rparr>" coupon_a]
  by (simp add: claim_page_def visitor_def coupon_a_def coupon_d_def smooth_run_def
        select_available_def mark_claimed_def update_coupons_def)

theorem no_coupon_available_witness:
  "filter (\<lambda>x. status x = ''available'') (coupons (store claim_page_empty)) = []
   \<and> store (claimCoupon smooth_run claim_page_empty) = store claim_page_empty
   \<and> last_claim_time (jar (claimCoupon smooth_run claim_page_empty)) = None
   \<and> toasts (claimCoupon smooth_run claim_page_empty) =
        [Error ''No coupons available at the moment. Please try again later.'']"
  using no_coupon_available [of claim_page_empty smooth_run]
  by (simp add: claim_page_empty_def claim_page_def visitor_def coupon_d_def smooth_run_def)

section \<open>Properties of the admin dashboard\<close>


lemma store_loadCoupons: "store (loadCoupons r w) = store w"
  by (cases r) (simp_all add: loadCoupons_def add_toast_def)













text \<open>
  The second toggle on a table that was not reloaded: the operator disables the
  available coupon SAVE10, the reload fails, and the button of the unchanged row is
  pressed again. The coupon stays disabled.
\<close>

lemma stale_row_example:
  "listed (ui (toggleCouponStatus Resolves Errors coupon_a claim_admin)) =
     [coupon_a, coupon_d]
   \<and> coupons (store (toggleCouponStatus Resolves Errors coupon_a
                       (toggleCouponStatus Resolves Errors coupon_a claim_admin))) =
        [coupon_d, coupon_a\<lparr>status := ''disabled''\<rparr>]"
  by (simp add: toggleCouponStatus_def loadCoupons_def add_toast_def
        update_coupons_def claim_admin_def initial_admin_def coupon_a_def coupon_d_def
        Let_def)


text \<open>
  C6 fails on the toggle. The store with the one claimed coupon satisfies the
  invariant; after one toggle the coupon is available and still carries the session
  and the time of its claim.
\<close>

theorem toggle_breaks_coupon_inv:
  "db_inv (store admin_page)
   \<and> coupons (store (toggleCouponStatus Resolves Resolves coupon_c admin_page)) =
        [coupon_c\<lparr>status := ''available''\<rparr>]
   \<and> claimed_by (coupon_c\<lparr>status := ''available''\<rparr>) = Some ''sess-9''
   \<and> \<not> db_inv (store (toggleCouponStatus Resolves Resolves coupon_c admin_page))"
  by (simp add: db_inv_def coupon_inv_def toggleCouponStatus_def loadCoupons_def
        add_toast_def update_coupons_def admin_page_def initial_admin_def coupon_c_def
        Let_def)

subsection \<open>Creating a coupon\<close>

lemma upper_digit36_table:
  "map (\<lambda>d. upper_char (digit36 d)) [0..<36] = ''0123456789ABCDEFGHIJKLMNOPQRSTUVWXYZ''"
  by code_simp

lemma upper_digit36:
  assumes "d < 36"
  shows "upper_char (digit36 d) \<in> set ''0123456789ABCDEFGHIJKLMNOPQRSTUVWXYZ''"
proof -
  have "d \<in> set [0..<36]"
    using assms by simp
  then have "upper_char (digit36 d) \<in> set (map (\<lambda>d. upper_char (digit36 d)) [0..<36])"
    by (rule imageI[of d "set [0..<36]", folded set_map])
  then show ?thesis
    unfolding upper_digit36_table .
qed

lemma upper_digit36_nth:
  assumes "d < 36"
  shows "upper_char (digit36 d) = ''0123456789ABCDEFGHIJKLMNOPQRSTUVWXYZ'' ! d"
proof -
  have "map (\<lambda>d. upper_char (digit36 d)) [0..<36] ! d = upper_char (digit36 ([0..<36] ! d))"
    using assms by (intro nth_map) simp
  also have "[0..<36] ! d = d"
    using assms by simp
  finally show ?thesis
    unfolding upper_digit36_table by simp
qed

lemma new_code_take: "new_code ds = map (\<lambda>d. upper_char (digit36 d)) (take 8 ds)"
  by (cases ds) (simp_all add: new_code_def toUpperCase_def substring_def toString36_def take_map)

lemma new_code_alphanumeric:
  assumes "\<forall>d\<in>set ds. d < 36"
  shows "set (new_code ds) \<subseteq> set ''0123456789ABCDEFGHIJKLMNOPQRSTUVWXYZ''"
proof
  fix ch assume "ch \<in> set (new_code ds)"
  then have "ch \<in> (\<lambda>d. upper_char (digit36 d)) ` set (take 8 ds)"
    unfolding new_code_take by simp
  then obtain d where ch: "ch = upper_char (digit36 d)" and d: "d \<in> set (take 8 ds)"
    by (rule imageE)
  have "d \<in> set ds"
    using d by (rule in_set_takeD)
  then have "d < 36"
    using assms by blast
  then show "ch \<in> set ''0123456789ABCDEFGHIJKLMNOPQRSTUVWXYZ''"
    unfolding ch by (rule upper_digit36)
qed

lemma move_by_days:
  fixes t m d n :: int
  shows "(t div m - (d - 1) + (d + n) - 1) * m + t mod m = t + n * m"
proof -
  have "(t div m - (d - 1) + (d + n) - 1) * m + t mod m = (t div m) * m + t mod m + n * m"
    by (simp add: algebra_simps)
  then show ?thesis
    by simp
qed

lemma move_by_days_normal:
  fixes t m n :: int
  shows "(t div m + n) * m + t mod m = t + n * m"
  using move_by_days[of t m 1 n] by simp

lemma setDate_getDate:
  "setDate z (js_add (getDate z t) (Num n)) t =
     TimeClip (UTC z (LocalTime z t + n * msPerDay))"
  by (simp add: setDate_def js_add_def getDate_def Let_def MakeDate_def
        MakeDay_in_month_of_def Day_def TimeWithinDay_def move_by_days_normal)

lemma addCoupon_store:
  assumes "expiryDays (ui w) = Num n"
    and "\<bar>UTC (local_zone e) (LocalTime (local_zone e) (now_click e) + n * msPerDay)\<bar>
           \<le> 8640000000000000"
    and "insert_coupon_call e = Resolves"
  shows "coupons (store (addCoupon e w)) =
           coupons (store w) @
             [\<lparr>ident = new_coupon_ident e, code = new_code (random_digits e),
               status = ''available'', claimed_by = None, claimed_at = None,
               expires_at = UTC (local_zone e)
                              (LocalTime (local_zone e) (now_click e) + n * msPerDay),
               created_at = store_created_at e\<rparr>]"
  using assms
  by (simp add: addCoupon_def Let_def setDate_getDate TimeClip_def store_loadCoupons
        add_toast_def insert_coupon_def)

lemma same_local_day_time:
  "Day (l + n * msPerDay) = Day l + n \<and> TimeWithinDay (l + n * msPerDay) = TimeWithinDay l"
  by (simp add: Day_def TimeWithinDay_def msPerDay_def)

lemma addCoupon_fails:
  assumes "expiryDays (ui w) = Num n"
    and "8640000000000000
           < \<bar>UTC (local_zone e) (LocalTime (local_zone e) (now_click e) + n * msPerDay)\<bar>
         \<or> insert_coupon_call e \<noteq> Resolves"
  shows "addCoupon e w = add_toast (Error ''Failed to add coupon'') w"
proof (cases "8640000000000000
           < \<bar>UTC (local_zone e) (LocalTime (local_zone e) (now_click e) + n * msPerDay)\<bar>")
  case True
  then show ?thesis
    using assms(1) by (simp add: addCoupon_def Let_def setDate_getDate TimeClip_def)
next
  case False
  then have "insert_coupon_call e \<noteq> Resolves"
    using assms(2) by simp
  then show ?thesis
    using assms(1) False
    by (cases "insert_coupon_call e")
       (simp_all add: addCoupon_def Let_def setDate_getDate TimeClip_def)
qed

lemma addCoupon_NaN:
  assumes "expiryDays (ui w) = NaN"
  shows "addCoupon e w = add_toast (Error ''Failed to add coupon'') w"
  using assms by (simp add: addCoupon_def Let_def setDate_def js_add_def)

text \<open>
  C7, as the code has it. The state cell starts at 7. Let \<open>n\<close> be the integer number
  of expiry days and \<open>ex\<close> the browser's clock reading at the click moved \<open>n\<close> days
  ahead in local time.

  \<^item> When \<open>ex\<close> is in the range of \<^verbatim>\<open>Date\<close> and the insert resolves, the store
    gains exactly one row: its code is the one drawn, its status is available, its
    \<^verbatim>\<open>created_at\<close> is the stamp of the store, and its \<^verbatim>\<open>expires_at\<close> is \<open>ex\<close>.
  \<^item> When \<open>ex\<close> is out of the range of \<^verbatim>\<open>Date\<close>, or the insert does not resolve,
    no row is inserted: the store is as before and the one new notification is "Failed
    to add coupon".
  \<^item> The code is made of digits and capital letters only.
  \<^item> Where the local time of \<open>ex\<close> is mapped back to itself by the time zone, the
    local day number of \<open>ex\<close> is \<open>n\<close> more than that of the click and the local
    time of day is the same.
  \<^item> In a zone with one fixed offset \<open>ex\<close> is the click plus \<open>n\<close> times 86400000
    ms, and it is \<^verbatim>\<open>created_at\<close> plus \<open>n\<close> days exactly when the stamp of the
    store is the clock reading of the click.
\<close>

theorem addCoupon_expiry:
  assumes "expiryDays (ui w) = Num n"
    and "\<forall>d\<in>set (random_digits e). d < 36"
    and "ex = UTC (local_zone e) (LocalTime (local_zone e) (now_click e) + n * msPerDay)"
  shows "expiryDays initial_admin = Num 7
     \<and> (\<bar>ex\<bar> \<le> 8640000000000000 \<and> insert_coupon_call e = Resolves \<longrightarrow>
          coupons (store (addCoupon e w)) =
            coupons (store w) @
              [\<lparr>ident = new_coupon_ident e, code = new_code (random_digits e),
                status = ''available'', claimed_by = None, claimed_at = None,
                expires_at = ex, created_at = store_created_at e\<rparr>])
     \<and> (8640000000000000 < \<bar>ex\<bar> \<or> insert_coupon_call e \<noteq> Resolves \<longrightarrow>
          store (addCoupon e w) = store w
          \<and> toasts (addCoupon e w) = toasts w @ [Error ''Failed to add coupon''])
     \<and> set (new_code (random_digits e)) \<subseteq> set ''0123456789ABCDEFGHIJKLMNOPQRSTUVWXYZ''
     \<and> (LocalTime (local_zone e) ex = LocalTime (local_zone e) (now_click e) + n * msPerDay
          \<longrightarrow> Day (LocalTime (local_zone e) ex) = Day (LocalTime (local_zone e) (now_click e)) + n
            \<and> TimeWithinDay (LocalTime (local_zone e) ex) =
                TimeWithinDay (LocalTime (local_zone e) (now_click e)))
     \<and> ((\<forall>t. tza_utc (local_zone e) t = k) \<and> (\<forall>t. tza_local (local_zone e) t = k)
          \<longrightarrow> ex = now_click e + n * 86400000
            \<and> (ex = store_created_at e + n * 86400000) = (store_created_at e = now_click e))"
proof -
  have a: "expiryDays initial_admin = Num 7"
    by (simp add: initial_admin_def)
  have b: "coupons (store (addCoupon e w)) =
          coupons (store w) @
            [\<lparr>ident = new_coupon_ident e, code = new_code (random_digits e),
              status = ''available'', claimed_by = None, claimed_at = None,
              expires_at = ex, created_at = store_created_at e\<rparr>]"
    if "\<bar>ex\<bar> \<le> 8640000000000000 \<and> insert_coupon_call e = Resolves"
  proof -
    have r: "\<bar>UTC (local_zone e) (LocalTime (local_zone e) (now_click e) + n * msPerDay)\<bar>
               \<le> 8640000000000000"
      using that unfolding assms(3) by simp
    have i: "insert_coupon_call e = Resolves"
      using that by simp
    show ?thesis
      using addCoupon_store[OF assms(1) r i] unfolding assms(3) .
  qed
  have b': "store (addCoupon e w) = store w
            \<and> toasts (addCoupon e w) = toasts w @ [Error ''Failed to add coupon'']"
    if "8640000000000000 < \<bar>ex\<bar> \<or> insert_coupon_call e \<noteq> Resolves"
  proof -
    have "addCoupon e w = add_toast (Error ''Failed to add coupon'') w"
      using that unfolding assms(3) by (rule addCoupon_fails[OF assms(1)])
    then show ?thesis
      by (simp add: add_toast_def)
  qed
  have c: "set (new_code (random_digits e)) \<subseteq> set ''0123456789ABCDEFGHIJKLMNOPQRSTUVWXYZ''"
    using assms(2) by (rule new_code_alphanumeric)
  have d: "Day (LocalTime (local_zone e) ex) = Day (LocalTime (local_zone e) (now_click e)) + n
            \<and> TimeWithinDay (LocalTime (local_zone e) ex) =
                TimeWithinDay (LocalTime (local_zone e) (now_click e))"
    if "LocalTime (local_zone e) ex = LocalTime (local_zone e) (now_click e) + n * msPerDay"
    unfolding that by (rule same_local_day_time)
  have f: "ex = now_click e + n * 86400000
           \<and> (ex = store_created_at e + n * 86400000) = (store_created_at e = now_click e)"
    if "(\<forall>t. tza_utc (local_zone e) t = k) \<and> (\<forall>t. tza_local (local_zone e) t = k)"
  proof -
    have "ex = now_click e + n * 86400000"
      unfolding assms(3) using that by (simp add: UTC_def LocalTime_def msPerDay_def)
    then show ?thesis
      by auto
  qed
  show ?thesis
    using a b b' c d f by blast
qed

theorem addCoupon_expiry_witness:
  "expiryDays (ui admin_page) = Num 7
   \<and> insert_coupon_call add_run = Resolves
   \<and> random_digits add_run = [18]
   \<and> coupons (store (addCoupon add_run admin_page)) =
        [coupon_c,
         \<lparr>ident = ''c4'', code = ''I'', status = ''available'', claimed_by = None,
          claimed_at = None, expires_at = 1762646400000, created_at = 1762041600250\<rparr>]
   \<and> Day 1762646400000 = Day 1762041600000 + 7
   \<and> TimeWithinDay 1762646400000 = TimeWithinDay 1762041600000
   \<and> store (addCoupon (add_run\<lparr>insert_coupon_call := Errors\<rparr>) admin_page) = store admin_page
   \<and> toasts (addCoupon (add_run\<lparr>insert_coupon_call := Errors\<rparr>) admin_page) =
        [Error ''Failed to add coupon'']"
  using addCoupon_expiry [where w = admin_page and n = 7 and e = add_run
                            and ex = 1762646400000 and k = 0]
        addCoupon_expiry [where w = admin_page and n = 7
                            and e = "add_run\<lparr>insert_coupon_call := Errors\<rparr>"
                            and ex = 1762646400000 and k = 0]
  by (simp add: admin_page_def initial_admin_def add_run_def utc_zone_def UTC_def
        LocalTime_def msPerDay_def new_code_take upper_digit36_nth)

text \<open>
  The claim of C7 fails in two ways. With 100000000 expiry days, a value above the
  minimum, the date moved ahead is out of the range of \<^verbatim>\<open>Date\<close>: no row is
  inserted and the operator sees "Failed to add coupon". With 7 expiry days the row is
  inserted, but the code computes \<^verbatim>\<open>expires_at\<close> from the clock of the browser and
  sends no \<^verbatim>\<open>created_at\<close>: with a store that stamps the row a quarter of a second
  after the click, \<^verbatim>\<open>expires_at\<close> is not \<^verbatim>\<open>created_at\<close> plus seven days.
\<close>

theorem addCoupon_created_at_counterexample:
  "coupons (store (addCoupon add_run
      (admin_page\<lparr>ui := (ui admin_page)\<lparr>expiryDays := Num 100000000\<rparr>\<rparr>))) = [coupon_c]
   \<and> toasts (addCoupon add_run
      (admin_page\<lparr>ui := (ui admin_page)\<lparr>expiryDays := Num 100000000\<rparr>\<rparr>)) =
        [Error ''Failed to add coupon'']
   \<and> expiryDays (ui admin_page) = Num 7
   \<and> expires_at (last (coupons (store (addCoupon add_run admin_page)))) = 1762646400000
   \<and> created_at (last (coupons (store (addCoupon add_run admin_page)))) = 1762041600250
   \<and> expires_at (last (coupons (store (addCoupon add_run admin_page))))
       \<noteq> created_at (last (coupons (store (addCoupon add_run admin_page)))) + 7 * msPerDay"
  by (simp add: addCoupon_def Let_def setDate_getDate TimeClip_def store_loadCoupons
        add_toast_def insert_coupon_def admin_page_def initial_admin_def add_run_def
        utc_zone_def UTC_def LocalTime_def msPerDay_def)

text \<open>
  C9. For every draw, the code is made of decimal digits and capital Latin letters
  only and has as many characters as the draw has base-36 digits, at most 8: the draw
  one half gives the one-letter code "I" and the draw 0 gives the empty code. The
  insert is sent without a look at the store: when it resolves, the number of rows
  carrying the new code is one more than before, whatever it was before.
\<close>

theorem new_code_shape:
  "((\<forall>d\<in>set ds. d < 36) \<longrightarrow>
      set (new_code ds) \<subseteq> set ''0123456789ABCDEFGHIJKLMNOPQRSTUVWXYZ'')
   \<and> length (new_code ds) = min 8 (length ds)
   \<and> length (new_code ds) \<le> 8
   \<and> new_code [18] = ''I''
   \<and> new_code [] = []
   \<and> (expiryDays (ui w) = Num n
        \<and> \<bar>UTC (local_zone e) (LocalTime (local_zone e) (now_click e) + n * msPerDay)\<bar>
             \<le> 8640000000000000
        \<and> insert_coupon_call e = Resolves \<longrightarrow>
        length (filter (\<lambda>x. code x = new_code (random_digits e))
                  (coupons (store (addCoupon e w)))) =
        length (filter (\<lambda>x. code x = new_code (random_digits e)) (coupons (store w))) + 1)"
proof -
  have a: "set (new_code ds) \<subseteq> set ''0123456789ABCDEFGHIJKLMNOPQRSTUVWXYZ''"
    if "\<forall>d\<in>set ds. d < 36"
    using that by (rule new_code_alphanumeric)
  have b: "length (new_code ds) = min 8 (length ds)"
    by (simp add: new_code_take min.commute)
  have c: "new_code [18] = ''I''"
    by (simp add: new_code_take upper_digit36_nth)
  have d: "new_code [] = []"
    by (simp add: new_code_take)
  have f: "length (filter (\<lambda>x. code x = new_code (random_digits e))
                  (coupons (store (addCoupon e w)))) =
        length (filter (\<lambda>x. code x = new_code (random_digits e)) (coupons (store w))) + 1"
    if "expiryDays (ui w) = Num n
        \<and> \<bar>UTC (local_zone e) (LocalTime (local_zone e) (now_click e) + n * msPerDay)\<bar>
             \<le> 8640000000000000
        \<and> insert_coupon_call e = Resolves"
  proof -
    have "coupons (store (addCoupon e w)) =
           coupons (store w) @
             [\<lparr>ident = new_coupon_ident e, code = new_code (random_digits e),
               status = ''available'', claimed_by = None, claimed_at = None,
               expires_at = UTC (local_zone e)
                              (LocalTime (local_zone e) (now_click e) + n * msPerDay),
               created_at = store_created_at e\<rparr>]"
      using that by (intro addCoupon_store) simp_all
    then show ?thesis
      by simp
  qed
  show ?thesis
    using a b c d f by simp
qed

theorem new_code_shape_witness:
  "set (new_code [35, 0, 10]) \<subseteq> set ''0123456789ABCDEFGHIJKLMNOPQRSTUVWXYZ''
   \<and> new_code [35, 0, 10] = ''Z0A''
   \<and> map code (coupons (store (addCoupon add_run
        (admin_page\<lparr>store := \<lparr>coupons = [coupon_c\<lparr>code := ''I''\<rparr>], claims = []\<rparr>\<rparr>))))
      = [''I'', ''I'']"
  using new_code_shape [where ds = "[35, 0, 10]"
          and w = "admin_page\<lparr>store := \<lparr>coupons = [coupon_c\<lparr>code := ''I''\<rparr>], claims = []\<rparr>\<rparr>"
          and n = 7 and e = add_run]
  by (simp add: new_code_take upper_digit36_nth addCoupon_def Let_def
        setDate_getDate TimeClip_def store_loadCoupons add_toast_def insert_coupon_def
        admin_page_def initial_admin_def add_run_def utc_zone_def UTC_def LocalTime_def
        msPerDay_def coupon_c_def)

section \<open>The coupon invariant under the operations\<close>

text \<open>
  The two updates of the claim workflow and the insert of the dashboard keep the
  invariant of section 3 on every row; the toggle does not.
\<close>

lemma coupon_inv_claimed:
  "coupon_inv (x\<lparr>status := ''claimed'', claimed_by := Some s, claimed_at := Some t\<rparr>)"
  by (simp add: coupon_inv_def)

lemma coupon_inv_reverted:
  "coupon_inv (x\<lparr>status := ''available'', claimed_by := None, claimed_at := None\<rparr>)"
  by (simp add: coupon_inv_def)

lemma list_all_rewrite:
  assumes "list_all q xs" and "\<And>x. q x \<Longrightarrow> p x \<Longrightarrow> q (f x)"
  shows "list_all q (map (\<lambda>x. if p x then f x else x) xs)"
  using assms(1)
proof (induction xs)
  case Nil
  then show ?case by simp
next
  case (Cons x xs)
  then have "q x" and "list_all q xs" by simp_all
  then show ?case
    using Cons.IH assms(2)[of x] by simp
qed

lemma db_inv_mark_claimed:
  assumes "db_inv d"
  shows "db_inv (mark_claimed s t cp d)"
proof -
  have "list_all coupon_inv (coupons d)"
    using assms by (simp add: db_inv_def)
  then have "list_all coupon_inv
               (map (\<lambda>x. if ident x = ident cp \<and> status x = ''available''
                         then x\<lparr>status := ''claimed'', claimed_by := Some s,
                                 claimed_at := Some t\<rparr>
                         else x) (coupons d))"
    by (rule list_all_rewrite) (rule coupon_inv_claimed)
  then show ?thesis
    by (simp add: db_inv_def mark_claimed_def update_coupons_def)
qed

lemma db_inv_revert_claimed:
  assumes "db_inv d"
  shows "db_inv (revert_claimed cp d)"
proof -
  have "list_all coupon_inv (coupons d)"
    using assms by (simp add: db_inv_def)
  then have "list_all coupon_inv
               (map (\<lambda>x. if ident x = ident cp
                         then x\<lparr>status := ''available'', claimed_by := None,
                                 claimed_at := None\<rparr>
                         else x) (coupons d))"
    by (rule list_all_rewrite) (rule coupon_inv_reverted)
  then show ?thesis
    by (simp add: db_inv_def revert_claimed_def update_coupons_def)
qed

lemma db_inv_insert_claim: "db_inv (insert_claim r d) = db_inv d"
  by (simp add: db_inv_def insert_claim_def)

lemma store_claim_succeeded: "store (claim_succeeded e cp w) = store w"
  by (simp add: claim_succeeded_def add_toast_def Let_def)

lemma store_add_toast: "store (add_toast t w) = store w"
  by (simp add: add_toast_def)

lemma db_inv_claim_record:
  assumes "db_inv (store w)"
  shows "db_inv (store (claim_record e sid cp w))"
  using assms
  by (simp add: claim_record_def store_add_toast store_claim_succeeded
        db_inv_revert_claimed db_inv_insert_claim split: outcome.split)

lemma db_inv_claim_try:
  assumes "db_inv (store w)"
  shows "db_inv (store (claim_try e sid w))"
  using assms
  by (simp add: claim_try_def store_add_toast db_inv_claim_record db_inv_mark_claimed
        split: outcome.split option.split)

lemma store_claimCoupon_cases:
  "store (claimCoupon e w) = store w
   \<or> (\<exists>v. store v = store w \<and> store (claimCoupon e w) = store (claim_try e (sessionId (ui w)) v))"
proof (cases "sessionId (ui w) = []")
  case False
  show ?thesis
  proof (cases "canUserClaim (jar w) (now_check e)")
    case True
    have "store (claimCoupon e w) =
            store (claim_try e (sessionId (ui w)) (w\<lparr>ui := (ui w)\<lparr>loading := True\<rparr>\<rparr>))"
      using False True by (simp add: claimCoupon_def Let_def)
    moreover have "store (w\<lparr>ui := (ui w)\<lparr>loading := True\<rparr>\<rparr>) = store w"
      by simp
    ultimately show ?thesis by blast
  next
    case no: False
    have "store (claimCoupon e w) = store w"
      using False no by (simp add: claimCoupon_def Let_def add_toast_def)
    then show ?thesis by blast
  qed
next
  case True
  obtain s j where g: "getOrCreateSessionId (uuid e) (jar w) = (s, j)"
    by (cases "getOrCreateSessionId (uuid e) (jar w)")
  show ?thesis
  proof (cases "s \<noteq> [] \<and> canUserClaim j (now_check e)")
    case run: True
    have "store (claimCoupon e w) =
            store (claim_try e (sessionId (ui w))
                     (w\<lparr>jar := j, ui := (ui w)\<lparr>sessionId := s, loading := True\<rparr>\<rparr>))"
      using True g run by (simp add: claimCoupon_def Let_def)
    moreover have
      "store (w\<lparr>jar := j, ui := (ui w)\<lparr>sessionId := s, loading := True\<rparr>\<rparr>) = store w"
      by simp
    ultimately show ?thesis by blast
  next
    case stop: False
    have "store (claimCoupon e w) = store w"
      using True g stop by (auto simp add: claimCoupon_def Let_def add_toast_def)
    then show ?thesis by blast
  qed
qed

lemma claimCoupon_keeps_coupon_inv:
  assumes "db_inv (store w)"
  shows "db_inv (store (claimCoupon e w))"
proof -
  from store_claimCoupon_cases[of e w]
  consider "store (claimCoupon e w) = store w"
    | v where "store v = store w"
        and "store (claimCoupon e w) = store (claim_try e (sessionId (ui w)) v)"
    by blast
  then show ?thesis
  proof cases
    case 1
    then show ?thesis using assms by simp
  next
    case 2
    have "db_inv (store v)"
      using assms 2(1) by simp
    then have "db_inv (store (claim_try e (sessionId (ui w)) v))"
      by (rule db_inv_claim_try)
    then show ?thesis using 2(2) by simp
  qed
qed

lemma addCoupon_keeps_coupon_inv:
  assumes "db_inv (store w)"
  shows "db_inv (store (addCoupon e w))"
proof (cases "setDate (local_zone e)
                (js_add (getDate (local_zone e) (now_click e)) (expiryDays (ui w)))
                (now_click e)")
  case None
  then show ?thesis
    using assms by (simp add: addCoupon_def Let_def add_toast_def)
next
  case (Some stamp)
  then show ?thesis
    using assms
    by (cases "insert_coupon_call e")
       (simp_all add: addCoupon_def Let_def add_toast_def store_loadCoupons
          insert_coupon_def db_inv_def coupon_inv_def)
qed

text \<open>
  The day of the month on 1 January 1970, on 29 February and 1 March 2024, and at the
  click of the concrete run, 2 November 2025.
\<close>

lemma DateFromDay_examples:
  "DateFromDay 0 = 1 \<and> DateFromDay 19782 = 29 \<and> DateFromDay 19783 = 1
   \<and> getDate utc_zone 1762041600000 = 2"
  by code_simp

end
